theory Spec2Isabelle
  imports Complex_Main "HOL-Library.Multiset"
begin

section \<open>Data model\<close>

text \<open>
  The embedding follows \<^verbatim>\<open>vercel-app/python-api/inference_api.py\<close>.

  A numpy array is its shape together with its elements in row-major (C) order, which is
  what \<^verbatim>\<open>flatten()\<close> returns.
\<close>

subsection \<open>Floating-point values\<close>

text \<open>
  The voxels are IEEE doubles: a finite number, an infinity or NaN. Subtraction and
  division follow IEEE 754 on the special values, and a finite result whose magnitude
  reaches the overflow bound of the format, \<open>2 ^ 1024 - 2 ^ 970\<close>, becomes an infinity.
  A finite result below that bound is taken exactly: the rounding of results in range, and
  with it the cast \<^verbatim>\<open>astype(np.float32)\<close> of values between 0 and 1, and the sign of zero
  are not modelled. The literals \<^verbatim>\<open>1e-6\<close> and \<^verbatim>\<open>0.05\<close> are the exact fractions.
\<close>

datatype fval = Fin real | PInf | NInf | NaN

definition float64_overflow :: real where
  "float64_overflow = 2 ^ 1024 - 2 ^ 970"

definition round_fin :: "real \<Rightarrow> fval" where
  "round_fin r =
     (if float64_overflow \<le> r then PInf
      else if r \<le> - float64_overflow then NInf
      else Fin r)"

fun fsub :: "fval \<Rightarrow> fval \<Rightarrow> fval" where
  "fsub NaN y = NaN"
| "fsub x NaN = NaN"
| "fsub (Fin x) (Fin y) = round_fin (x - y)"
| "fsub (Fin x) PInf = NInf"
| "fsub (Fin x) NInf = PInf"
| "fsub PInf PInf = NaN"
| "fsub PInf y = PInf"
| "fsub NInf NInf = NaN"
| "fsub NInf y = NInf"

fun fdiv :: "fval \<Rightarrow> fval \<Rightarrow> fval" where
  "fdiv NaN y = NaN"
| "fdiv x NaN = NaN"
| "fdiv (Fin x) (Fin y) =
     (if y = 0 then (if x = 0 then NaN else if 0 < x then PInf else NInf)
      else round_fin (x / y))"
| "fdiv (Fin x) y = Fin 0"
| "fdiv PInf (Fin y) = (if y < 0 then NInf else PInf)"
| "fdiv NInf (Fin y) = (if y < 0 then PInf else NInf)"
| "fdiv x y = NaN"

text \<open>
  The comparison \<^verbatim>\<open><\<close> of two doubles is false as soon as one of them is NaN.
\<close>

fun fless :: "fval \<Rightarrow> fval \<Rightarrow> bool" where
  "fless NaN y = False"
| "fless x NaN = False"
| "fless (Fin x) (Fin y) = (x < y)"
| "fless x NInf = False"
| "fless NInf y = True"
| "fless PInf y = False"
| "fless x PInf = True"

text \<open>
  \<^verbatim>\<open>np.sort\<close> orders the doubles by value and puts every NaN at the end. That order, and no
  other, is the order \<open>\<le>\<close> of \<open>fval\<close>, so that \<open>sort\<close> is \<^verbatim>\<open>np.sort\<close>.
\<close>

fun sort_rank :: "fval \<Rightarrow> nat" where
  "sort_rank NInf = 0"
| "sort_rank (Fin x) = 1"
| "sort_rank PInf = 2"
| "sort_rank NaN = 3"

fun fin_part :: "fval \<Rightarrow> real" where
  "fin_part (Fin x) = x"
| "fin_part y = 0"

instantiation fval :: linorder
begin

definition less_eq_fval :: "fval \<Rightarrow> fval \<Rightarrow> bool" where
  "x \<le> y \<longleftrightarrow>
     sort_rank x < sort_rank y \<or> (sort_rank x = sort_rank y \<and> fin_part x \<le> fin_part y)"

definition less_fval :: "fval \<Rightarrow> fval \<Rightarrow> bool" where
  "x < y \<longleftrightarrow> x \<le> y \<and> \<not> y \<le> (x::fval)"

instance
proof
  fix x y z :: fval
  show "x < y \<longleftrightarrow> x \<le> y \<and> \<not> y \<le> x" by (simp add: less_fval_def)
  show "x \<le> x" by (simp add: less_eq_fval_def)
  show "x \<le> y \<Longrightarrow> y \<le> z \<Longrightarrow> x \<le> z" by (auto simp add: less_eq_fval_def)
  show "x \<le> y \<Longrightarrow> y \<le> x \<Longrightarrow> x = y"
    by (cases x; cases y) (auto simp add: less_eq_fval_def)
  show "x \<le> y \<or> y \<le> x" by (auto simp add: less_eq_fval_def)
qed

end

subsection \<open>Volumes and exceptions\<close>

record volume =
  shape :: "nat list"
  data :: "fval list"

definition wf_volume :: "volume \<Rightarrow> bool" where
  "wf_volume v \<longleftrightarrow> length (data v) = prod_list (shape v)"

text \<open>
  The Python exceptions the pipeline can raise, each with its message. \<^verbatim>\<open>OtherError\<close>
  stands for whatever an external library (nibabel, keras) raises.
\<close>

datatype exn_kind = IndexError | ZeroDivisionError | ValueError | RuntimeError | OtherError

datatype exn = Exn exn_kind string

fun exn_str :: "exn \<Rightarrow> string" where
  "exn_str (Exn k msg) = msg"

definition bind_exn :: "exn + 'a \<Rightarrow> ('a \<Rightarrow> exn + 'b) \<Rightarrow> exn + 'b" where
  "bind_exn r f = (case r of Inl e \<Rightarrow> Inl e | Inr x \<Rightarrow> f x)"

section \<open>Intensity normalisation: \<^verbatim>\<open>preprocess_mri\<close>\<close>

text \<open>
  \<^verbatim>\<open>sorted_flat[int(len(sorted_flat) * 0.01)]\<close>: the index is the double product truncated
  towards zero, which is \<open>n div 100\<close> (and \<open>n * 99 div 100\<close> for \<^verbatim>\<open>0.99\<close>) for every
  length an array can have. Both indices are below the length unless the array is empty,
  where index 0 raises \<^verbatim>\<open>IndexError\<close>.
\<close>

definition sorted_at :: "fval list \<Rightarrow> nat \<Rightarrow> exn + fval" where
  "sorted_at sorted_flat i =
     (if i < length sorted_flat then Inr (sorted_flat ! i)
      else Inl (Exn IndexError
             ''index 0 is out of bounds for axis 0 with size 0''))"

text \<open>
  Lines 74 to 76: the difference of the percentiles, replaced by \<^verbatim>\<open>1e-6\<close> when it compares
  below \<^verbatim>\<open>1e-6\<close>.
\<close>

definition range_floor :: "fval \<Rightarrow> fval \<Rightarrow> fval" where
  "range_floor min_percentile max_percentile =
     (let range_val = fsub max_percentile min_percentile
      in if fless range_val (Fin (1 / 10 ^ 6)) then Fin (1 / 10 ^ 6) else range_val)"

text \<open>
  \<^verbatim>\<open>np.clip(x, lo, hi)\<close> is the minimum with \<^verbatim>\<open>hi\<close> of the maximum of \<^verbatim>\<open>x\<close> and \<^verbatim>\<open>lo\<close>, where
  each of the two keeps a NaN first argument and otherwise compares.
\<close>

definition npy_max :: "fval \<Rightarrow> fval \<Rightarrow> fval" where
  "npy_max a b = (if a = NaN then a else if fless b a then a else b)"

definition npy_min :: "fval \<Rightarrow> fval \<Rightarrow> fval" where
  "npy_min a b = (if a = NaN then a else if fless a b then a else b)"

definition np_clip :: "fval \<Rightarrow> fval \<Rightarrow> fval \<Rightarrow> fval" where
  "np_clip lo hi x = npy_min (npy_max x lo) hi"

definition noise_floor :: "fval \<Rightarrow> fval" where
  "noise_floor x = (if fless x (Fin (5 / 100)) then Fin 0 else x)"

definition normalize_voxel :: "fval \<Rightarrow> fval \<Rightarrow> fval \<Rightarrow> fval" where
  "normalize_voxel min_percentile max_percentile x =
     noise_floor (fdiv (fsub (np_clip min_percentile max_percentile x) min_percentile)
                       (range_floor min_percentile max_percentile))"

definition preprocess_mri :: "volume \<Rightarrow> exn + volume" where
  "preprocess_mri v =
     (let flat = data v;
          sorted_flat = sort flat
      in bind_exn (sorted_at sorted_flat (length sorted_flat div 100)) (\<lambda>min_percentile.
         bind_exn (sorted_at sorted_flat (length sorted_flat * 99 div 100)) (\<lambda>max_percentile.
           Inr (v\<lparr>data := map (normalize_voxel min_percentile max_percentile) flat\<rparr>))))"

subsection \<open>The rescale on finite values\<close>



section \<open>Resampling: \<^verbatim>\<open>resize_volume\<close>\<close>

text \<open>
  Python's \<^verbatim>\<open>round\<close> rounds a tie to the even neighbour.
\<close>

definition py_round :: "real \<Rightarrow> int" where
  "py_round x =
     (let f = \<lfloor>x\<rfloor>; d = x - of_int f
      in if d < 1 / 2 then f else if 1 / 2 < d then f + 1 else if even f then f else f + 1)"

text \<open>
  The comprehension \<^verbatim>\<open>[target_shape[i] / current_shape[i] for i in range(len(current_shape))]\<close>
  runs over the axes of the input: it reads \<^verbatim>\<open>target_shape[i]\<close> first (\<^verbatim>\<open>IndexError\<close> when
  the input has more axes than the target) and then divides two Python integers
  (\<^verbatim>\<open>ZeroDivisionError\<close> on an axis of size 0). The quotient is taken exactly.
\<close>

fun zoom_factors :: "nat list \<Rightarrow> nat list \<Rightarrow> exn + real list" where
  "zoom_factors target_shape [] = Inr []"
| "zoom_factors [] (c # current_shape) = Inl (Exn IndexError ''tuple index out of range'')"
| "zoom_factors (t # target_shape) (c # current_shape) =
     (if c = 0 then Inl (Exn ZeroDivisionError ''division by zero'')
      else bind_exn (zoom_factors target_shape current_shape) (\<lambda>zs. Inr (real t / real c # zs)))"

text \<open>
  \<^verbatim>\<open>scipy.ndimage.zoom\<close> is an external library. What is used of it here is its output
  shape, \<^verbatim>\<open>int(round(ii * jj))\<close> for each input size \<^verbatim>\<open>ii\<close> and zoom factor \<^verbatim>\<open>jj\<close>, and its
  refusal of an array without axes. The values it samples (\<^verbatim>\<open>order=0\<close>,
  \<^verbatim>\<open>mode='nearest'\<close>) are the parameter \<open>zoom_data\<close>, given the input and the output shape.
\<close>

definition zoom_shape :: "nat list \<Rightarrow> real list \<Rightarrow> nat list" where
  "zoom_shape input_shape zoom =
     map (\<lambda>(ii, jj). nat (py_round (real ii * jj))) (zip input_shape zoom)"

definition target_shape :: "nat list" where
  "target_shape = [128, 128, 96]"

definition resize_volume ::
  "(volume \<Rightarrow> nat list \<Rightarrow> fval list) \<Rightarrow> volume \<Rightarrow> nat list \<Rightarrow> exn + volume" where
  "resize_volume zoom_data v tgt =
     bind_exn (zoom_factors tgt (shape v)) (\<lambda>zf.
       if shape v = [] then Inl (Exn RuntimeError ''input and output rank must be > 0'')
       else (let out = zoom_shape (shape v) zf
             in Inr \<lparr>shape = out, data = zoom_data v out\<rparr>))"

section \<open>Stacking the modalities\<close>

text \<open>
  \<^verbatim>\<open>np.stack(arrays, axis=-1)\<close> raises \<^verbatim>\<open>ValueError\<close> unless all arrays have one shape; the
  result has a new last axis, so element \<open>i\<close> of array number \<open>c\<close> lands at flat position
  \<open>i * length arrays + c\<close>. \<^verbatim>\<open>np.expand_dims(stacked, axis=0)\<close> prepends an axis of
  size 1 and leaves the elements where they are.
\<close>

definition np_stack_last :: "volume list \<Rightarrow> exn + volume" where
  "np_stack_last arrays =
     (case arrays of
        [] \<Rightarrow> Inl (Exn ValueError ''need at least one array to stack'')
      | a # rest \<Rightarrow>
          if list_all (\<lambda>b. shape b = shape a) rest
          then Inr \<lparr>shape = shape a @ [length arrays],
                    data = concat (map (\<lambda>i. map (\<lambda>b. data b ! i) arrays)
                                       [0..<prod_list (shape a)])\<rparr>
          else Inl (Exn ValueError ''all input arrays must have the same shape''))"

definition expand_dims0 :: "volume \<Rightarrow> volume" where
  "expand_dims0 v = v\<lparr>shape := 1 # shape v\<rparr>"

text \<open>
  Reading a tensor back: \<open>take_channel t c\<close> is \<^verbatim>\<open>t[..., c].flatten()\<close>.
\<close>

definition take_channel :: "volume \<Rightarrow> nat \<Rightarrow> fval list" where
  "take_channel t c =
     (let n = last (shape t)
      in map (\<lambda>i. data t ! (i * n + c)) [0..<length (data t) div n])"

section \<open>Classification and statistics\<close>

text \<open>
  \<^verbatim>\<open>np.argmax\<close> scans from the left and keeps the first maximum; an empty axis raises
  \<^verbatim>\<open>ValueError\<close>. \<open>prediction[0]\<close> is given as one list of class scores per voxel, the
  voxels in row-major order; the scores are finite numbers.
\<close>

fun argmax_from :: "real list \<Rightarrow> nat \<Rightarrow> real \<Rightarrow> nat \<Rightarrow> nat" where
  "argmax_from [] i best best_i = best_i"
| "argmax_from (x # xs) i best best_i =
     (if best < x then argmax_from xs (Suc i) x i else argmax_from xs (Suc i) best best_i)"

definition np_argmax :: "real list \<Rightarrow> exn + nat" where
  "np_argmax scores =
     (case scores of
        [] \<Rightarrow> Inl (Exn ValueError ''attempt to get argmax of an empty sequence'')
      | x # rest \<Rightarrow> Inr (argmax_from rest 1 x 0))"

fun map_exn :: "('a \<Rightarrow> exn + 'b) \<Rightarrow> 'a list \<Rightarrow> exn + 'b list" where
  "map_exn f [] = Inr []"
| "map_exn f (x # xs) = bind_exn (f x) (\<lambda>y. bind_exn (map_exn f xs) (\<lambda>ys. Inr (y # ys)))"

record region =
  name :: string
  voxels :: int
  percentage :: real

record statistics =
  totalVoxels :: int
  tumorVoxels :: int
  tumorPercentage :: real
  regions :: "(nat \<times> region) list"

text \<open>
  \<^verbatim>\<open>np.unique(..., return_counts=True)\<close> gives the distinct class ids in ascending order
  with the number of voxels of each; the dict built from them keeps that order.
\<close>

definition region_counts :: "nat list \<Rightarrow> (nat \<times> int) list" where
  "region_counts predicted_classes =
     (let unique = sort (remdups predicted_classes)
      in map (\<lambda>u. (u, int (count_list predicted_classes u))) unique)"

definition dict_get :: "('k \<times> 'v) list \<Rightarrow> 'k \<Rightarrow> 'v \<Rightarrow> 'v" where
  "dict_get d k dflt = (case map_of d k of None \<Rightarrow> dflt | Some v \<Rightarrow> v)"

definition tumor_labels :: "(nat \<times> string) list" where
  "tumor_labels =
     [(0, ''Background''), (1, ''NCR/NET''), (2, ''Edema''), (3, ''Enhancing Tumor'')]"

fun str_nat :: "nat \<Rightarrow> string" where
  "str_nat n =
     (if n < 10 then [char_of (48 + n)] else str_nat (n div 10) @ [char_of (48 + n mod 10)])"

definition total_voxels :: int where
  "total_voxels = int (target_shape ! 0 * target_shape ! 1 * target_shape ! 2)"

definition make_region :: "nat \<times> int \<Rightarrow> nat \<times> region" where
  "make_region e =
     (case e of (class_id, cnt) \<Rightarrow>
        (class_id,
         \<lparr>name = dict_get tumor_labels class_id (''Class '' @ str_nat class_id),
          voxels = cnt,
          percentage = (real_of_int cnt / real_of_int total_voxels) * 100\<rparr>))"

definition compute_statistics :: "nat list \<Rightarrow> statistics" where
  "compute_statistics predicted_classes =
     (let rc = region_counts predicted_classes;
          tumor_voxels = total_voxels - dict_get rc 0 0;
          tumor_percentage = (real_of_int tumor_voxels / real_of_int total_voxels) * 100
      in \<lparr>totalVoxels = total_voxels,
          tumorVoxels = tumor_voxels,
          tumorPercentage = tumor_percentage,
          regions = map make_region (filter (\<lambda>e. fst e > 0) rc)\<rparr>)"

section \<open>The request: \<^verbatim>\<open>predict\<close>\<close>

text \<open>
  The decoder (\<^verbatim>\<open>nib.load\<close> and \<^verbatim>\<open>get_fdata\<close>), the loader of the model file and the model's
  forward pass are external: they are parameters, each either raising or returning. The
  global \<^verbatim>\<open>model\<close> is passed in and returned. The response's timestamp is left out.
  The body of the \<^verbatim>\<open>try\<close> is cut in two, the steps up to the four resized volumes and the
  steps from stacking on, run one after the other as in the source.
  The response's keys \<^verbatim>\<open>shape\<close>, \<^verbatim>\<open>statistics\<close> and \<^verbatim>\<open>method\<close> are the fields
  \<open>resp_shape\<close>, \<open>resp_statistics\<close> and \<open>resp_method\<close>.
\<close>

type_synonym bytes = string

definition parse_nifti :: "(bytes \<Rightarrow> exn + volume) \<Rightarrow> bytes \<Rightarrow> exn + volume" where
  "parse_nifti nib_load file_content =
     (case nib_load file_content of
        Inl e \<Rightarrow> Inl (Exn ValueError (''Failed to parse NIfTI file: '' @ exn_str e))
      | Inr d \<Rightarrow> Inr d)"

definition load_model :: "exn + 'm \<Rightarrow> 'm option \<Rightarrow> (exn + 'm) \<times> 'm option" where
  "load_model keras_load model =
     (case model of
        Some m \<Rightarrow> (Inr m, model)
      | None \<Rightarrow> (case keras_load of Inl e \<Rightarrow> (Inl e, None) | Inr m \<Rightarrow> (Inr m, Some m)))"

record response =
  success :: bool
  prediction :: "nat list"
  resp_shape :: "nat list"
  resp_statistics :: statistics
  resp_method :: string

datatype http_exception = HTTPException nat string

definition respond :: "nat list \<Rightarrow> response" where
  "respond predicted_classes =
     \<lparr>success = True, prediction = predicted_classes, resp_shape = target_shape,
      resp_statistics = compute_statistics predicted_classes, resp_method = ''python_api''\<rparr>"

definition stack_and_classify ::
  "(volume \<Rightarrow> exn + real list list) \<Rightarrow> volume list \<Rightarrow> exn + response" where
  "stack_and_classify engine resized =
     bind_exn (np_stack_last resized) (\<lambda>stacked.
     bind_exn (engine (expand_dims0 stacked)) (\<lambda>prediction0.
     bind_exn (map_exn np_argmax prediction0) (\<lambda>predicted_classes.
       Inr (respond predicted_classes))))"

definition load_and_resize ::
  "(bytes \<Rightarrow> exn + volume) \<Rightarrow> (volume \<Rightarrow> nat list \<Rightarrow> fval list) \<Rightarrow>
   bytes \<Rightarrow> bytes \<Rightarrow> bytes \<Rightarrow> bytes \<Rightarrow> exn + volume list" where
  "load_and_resize nib_load zoom_data t1 t1ce t2 flair =
     bind_exn (parse_nifti nib_load t1) (\<lambda>t1_data.
     bind_exn (parse_nifti nib_load t1ce) (\<lambda>t1ce_data.
     bind_exn (parse_nifti nib_load t2) (\<lambda>t2_data.
     bind_exn (parse_nifti nib_load flair) (\<lambda>flair_data.
     bind_exn (preprocess_mri t1_data) (\<lambda>t1_processed.
     bind_exn (preprocess_mri t1ce_data) (\<lambda>t1ce_processed.
     bind_exn (preprocess_mri t2_data) (\<lambda>t2_processed.
     bind_exn (preprocess_mri flair_data) (\<lambda>flair_processed.
     bind_exn (resize_volume zoom_data t1_processed target_shape) (\<lambda>t1_resized.
     bind_exn (resize_volume zoom_data t1ce_processed target_shape) (\<lambda>t1ce_resized.
     bind_exn (resize_volume zoom_data t2_processed target_shape) (\<lambda>t2_resized.
     bind_exn (resize_volume zoom_data flair_processed target_shape) (\<lambda>flair_resized.
       Inr [t1_resized, t1ce_resized, t2_resized, flair_resized]))))))))))))"

definition run_pipeline ::
  "(bytes \<Rightarrow> exn + volume) \<Rightarrow> (volume \<Rightarrow> nat list \<Rightarrow> fval list) \<Rightarrow>
   (volume \<Rightarrow> exn + real list list) \<Rightarrow> bytes \<Rightarrow> bytes \<Rightarrow> bytes \<Rightarrow> bytes \<Rightarrow> exn + response" where
  "run_pipeline nib_load zoom_data engine t1 t1ce t2 flair =
     bind_exn (load_and_resize nib_load zoom_data t1 t1ce t2 flair)
       (stack_and_classify engine)"

definition predict ::
  "(bytes \<Rightarrow> exn + volume) \<Rightarrow> (volume \<Rightarrow> nat list \<Rightarrow> fval list) \<Rightarrow> exn + 'm \<Rightarrow>
   ('m \<Rightarrow> volume \<Rightarrow> exn + real list list) \<Rightarrow> 'm option \<Rightarrow>
   bytes \<Rightarrow> bytes \<Rightarrow> bytes \<Rightarrow> bytes \<Rightarrow> (http_exception + response) \<times> 'm option" where
  "predict nib_load zoom_data keras_load model_predict model t1 t1ce t2 flair =
     (case load_model keras_load model of
        (Inl e, model') \<Rightarrow>
          (Inl (HTTPException 500 (''Prediction failed: '' @ exn_str e)), model')
      | (Inr m, model') \<Rightarrow>
          (case run_pipeline nib_load zoom_data (model_predict m) t1 t1ce t2 flair of
             Inl e \<Rightarrow> (Inl (HTTPException 500 (''Prediction failed: '' @ exn_str e)), model')
           | Inr r \<Rightarrow> (Inr r, model')))"

text \<open>
  A volume of the target shape with one value in every voxel, for use in examples.
\<close>

definition const_volume :: "real \<Rightarrow> volume" where
  "const_volume x =
     \<lparr>shape = target_shape, data = replicate (prod_list target_shape) (Fin x)\<rparr>"

section \<open>Properties of the normaliser\<close>

lemma fin_le [simp]: "Fin x \<le> Fin y \<longleftrightarrow> x \<le> y"
  by (simp add: less_eq_fval_def)

lemma nan_le [simp]: "NaN \<le> x \<longleftrightarrow> x = NaN"
  by (cases x) (simp_all add: less_eq_fval_def)







subsection \<open>The rescale on reals\<close>






subsection \<open>Finite percentiles\<close>






subsection \<open>Range of the output\<close>




subsection \<open>The divisor\<close>





subsection \<open>Normalising twice\<close>








section \<open>Properties of the resampler and the stacker\<close>

lemma py_round_of_nat: "py_round (real n) = int n"
  by (simp add: py_round_def)

lemma zoom_round_trip: "0 < c \<Longrightarrow> nat (py_round (real c * (real t / real c))) = t"
  by (simp add: py_round_of_nat)

text \<open>
  Claim C2. A volume with three axes, each of positive size, is resampled without error and
  the result has shape (128, 128, 96), whatever the input sizes and whatever values the
  interpolation picks; the zoom factors \<open>128 / x\<close>, \<open>128 / y\<close> and \<open>96 / z\<close> need not be
  integers.
\<close>

theorem resize_volume_shape:
  assumes "shape v = [x, y, z]" and "0 < x" and "0 < y" and "0 < z"
  shows "\<exists>w. resize_volume zoom_data v target_shape = Inr w \<and> shape w = [128, 128, 96]"
  using assms zoom_round_trip [of x 128] zoom_round_trip [of y 128] zoom_round_trip [of z 96]
  by (simp add: resize_volume_def target_shape_def bind_exn_def zoom_shape_def Let_def)

theorem resize_volume_shape_witness:
  "shape \<lparr>shape = [240, 240, 155], data = []\<rparr> = [240, 240, 155]
   \<and> (0::nat) < 240 \<and> (0::nat) < 155
   \<and> (\<exists>w. resize_volume (\<lambda>v out. []) \<lparr>shape = [240, 240, 155], data = []\<rparr> target_shape = Inr w
          \<and> shape w = [128, 128, 96])"
  using resize_volume_shape [of "\<lparr>shape = [240, 240, 155], data = []\<rparr>" 240 240 155 "\<lambda>v out. []"]
  by simp

text \<open>
  Claim C4, as stated, fails: four volumes that share the shape (2), which is not the target
  shape, are stacked into an array of shape (2, 4) and no error is raised.
\<close>

theorem stacker_wrong_shape_counterexample:
  "shape \<lparr>shape = [2], data = [Fin 1, Fin 2]\<rparr> \<noteq> target_shape
   \<and> np_stack_last [\<lparr>shape = [2], data = [Fin 1, Fin 2]\<rparr>, \<lparr>shape = [2], data = [Fin 3, Fin 4]\<rparr>,
                     \<lparr>shape = [2], data = [Fin 5, Fin 6]\<rparr>, \<lparr>shape = [2], data = [Fin 7, Fin 8]\<rparr>]
       = Inr \<lparr>shape = [2, 4], data = [Fin 1, Fin 3, Fin 5, Fin 7, Fin 2, Fin 4, Fin 6, Fin 8]\<rparr>"
  by (simp add: np_stack_last_def target_shape_def upt_rec)

text \<open>
  Claim C4, amended. The stacking step compares the four resized volumes with each other, not
  with the target shape. When they do not all have one shape it raises \<^verbatim>\<open>ValueError\<close> and the
  request, the model being loaded, ends in an HTTP 500 response that carries the message;
  when they share a shape, whichever it is, they are stacked along a new last axis of size 4.
\<close>

theorem stacker_mismatch_surfaced:
  assumes "load_model keras_load model = (Inr m, model')"
    and "load_and_resize nib_load zoom_data t1 t1ce t2 flair = Inr [a, b, c, d]"
  shows "(\<not> (shape b = shape a \<and> shape c = shape a \<and> shape d = shape a) \<longrightarrow>
            np_stack_last [a, b, c, d]
              = Inl (Exn ValueError ''all input arrays must have the same shape'')
            \<and> predict nib_load zoom_data keras_load model_predict model t1 t1ce t2 flair
              = (Inl (HTTPException 500
                       ''Prediction failed: all input arrays must have the same shape''), model'))
       \<and> (shape b = shape a \<and> shape c = shape a \<and> shape d = shape a \<longrightarrow>
            (\<exists>t. np_stack_last [a, b, c, d] = Inr t \<and> shape t = shape a @ [4]))"
proof (intro conjI impI)
  assume ne: "\<not> (shape b = shape a \<and> shape c = shape a \<and> shape d = shape a)"
  then show st: "np_stack_last [a, b, c, d]
              = Inl (Exn ValueError ''all input arrays must have the same shape'')"
    by (auto simp add: np_stack_last_def)
  have "run_pipeline nib_load zoom_data (model_predict m) t1 t1ce t2 flair
          = Inl (Exn ValueError ''all input arrays must have the same shape'')"
    using assms(2) st by (simp add: run_pipeline_def stack_and_classify_def bind_exn_def)
  with assms(1) show "predict nib_load zoom_data keras_load model_predict model t1 t1ce t2 flair
              = (Inl (HTTPException 500
                       ''Prediction failed: all input arrays must have the same shape''), model')"
    by (simp add: predict_def)
next
  assume "shape b = shape a \<and> shape c = shape a \<and> shape d = shape a"
  then show "\<exists>t. np_stack_last [a, b, c, d] = Inr t \<and> shape t = shape a @ [4]"
    by (simp add: np_stack_last_def)
qed

theorem stacker_mismatch_surfaced_witness:
  "load_model (Inr ()) None = (Inr (), Some ())
   \<and> load_and_resize
        (\<lambda>b. if b = ''2d'' then Inr \<lparr>shape = [1, 1], data = [Fin 1]\<rparr>
              else Inr \<lparr>shape = [1, 1, 1], data = [Fin 1]\<rparr>)
        (\<lambda>v out. []) ''3d'' ''3d'' ''2d'' ''3d''
       = Inr [\<lparr>shape = [128, 128, 96], data = []\<rparr>, \<lparr>shape = [128, 128, 96], data = []\<rparr>,
              \<lparr>shape = [128, 128], data = []\<rparr>, \<lparr>shape = [128, 128, 96], data = []\<rparr>]
   \<and> predict
        (\<lambda>b. if b = ''2d'' then Inr \<lparr>shape = [1, 1], data = [Fin 1]\<rparr>
              else Inr \<lparr>shape = [1, 1, 1], data = [Fin 1]\<rparr>)
        (\<lambda>v out. []) (Inr ()) (\<lambda>m t. Inr []) None ''3d'' ''3d'' ''2d'' ''3d''
       = (Inl (HTTPException 500
                ''Prediction failed: all input arrays must have the same shape''), Some ())"
proof -
  let ?nib = "\<lambda>b. if b = ''2d'' then Inr \<lparr>shape = [1, 1], data = [Fin 1]\<rparr>
                   else Inr \<lparr>shape = [1, 1, 1], data = [Fin 1]\<rparr>"
  have l: "load_model (Inr ()) None = (Inr (), Some ())"
    by (simp add: load_model_def)
  have r: "load_and_resize ?nib (\<lambda>v out. []) ''3d'' ''3d'' ''2d'' ''3d''
       = Inr [\<lparr>shape = [128, 128, 96], data = []\<rparr>, \<lparr>shape = [128, 128, 96], data = []\<rparr>,
              \<lparr>shape = [128, 128], data = []\<rparr>, \<lparr>shape = [128, 128, 96], data = []\<rparr>]"
    by (simp add: load_and_resize_def parse_nifti_def preprocess_mri_def sorted_at_def
        bind_exn_def resize_volume_def target_shape_def zoom_shape_def py_round_def)
  show ?thesis
    using l r stacker_mismatch_surfaced [OF l r, of "\<lambda>m t. Inr []"] by simp
qed

lemma length_concat_blocks:
  "(\<And>i. i < n \<Longrightarrow> length (g i) = k) \<Longrightarrow> length (concat (map g [0..<n])) = n * k"
  by (induction n) simp_all

lemma nth_concat_blocks:
  assumes "\<And>i. i < n \<Longrightarrow> length (g i) = k" and "i < n" and "c < k"
  shows "concat (map g [0..<n]) ! (i * k + c) = g i ! c"
  using assms
proof (induction n)
  case 0
  then show ?case by simp
next
  case (Suc n)
  have len: "length (concat (map g [0..<n])) = n * k"
    using Suc.prems(1) by (intro length_concat_blocks) simp
  show ?case
  proof (cases "i < n")
    case True
    then have "Suc i \<le> n" by simp
    then have "Suc i * k \<le> n * k" by (rule mult_le_mono1)
    then have "i * k + c < n * k" using Suc.prems(3) by simp
    then show ?thesis
      using Suc.IH [OF _ True Suc.prems(3)] Suc.prems(1) len by (simp add: nth_append)
  next
    case False
    then have "i = n" using Suc.prems(2) by simp
    then show ?thesis using len by (simp add: nth_append)
  qed
qed

lemma stack_channel:
  assumes "length xs = n" and "length fs = k" and "c < k" and "fs ! c = (\<lambda>i. xs ! i)"
  shows "map (\<lambda>i. concat (map (\<lambda>i. map (\<lambda>f. f i) fs) [0..<n]) ! (i * k + c)) [0..<n] = xs"
proof -
  have "concat (map (\<lambda>i. map (\<lambda>f. f i) fs) [0..<n]) ! (i * k + c) = xs ! i"
    if "i < n" for i
    using nth_concat_blocks [of n "\<lambda>i. map (\<lambda>f. f i) fs" k i c] that assms by simp
  then have "map (\<lambda>i. concat (map (\<lambda>i. map (\<lambda>f. f i) fs) [0..<n]) ! (i * k + c)) [0..<n]
      = map (\<lambda>i. xs ! i) [0..<n]"
    by simp
  also have "\<dots> = xs"
    unfolding assms(1) [symmetric] by (rule map_nth)
  finally show ?thesis .
qed

text \<open>
  Claim C9. Four well-formed volumes of the target shape are stacked, after the batch axis is
  added, into a tensor of shape (1, 128, 128, 96, 4) whose channels 0, 1, 2 and 3 are exactly
  the T1, T1ce, T2 and FLAIR volumes.
\<close>

theorem stacker_channels:
  assumes "shape t1 = target_shape" "shape t1ce = target_shape"
    "shape t2 = target_shape" "shape flair = target_shape"
    and "wf_volume t1" "wf_volume t1ce" "wf_volume t2" "wf_volume flair"
  shows "\<exists>stacked. np_stack_last [t1, t1ce, t2, flair] = Inr stacked
           \<and> shape (expand_dims0 stacked) = [1, 128, 128, 96, 4]
           \<and> take_channel (expand_dims0 stacked) 0 = data t1
           \<and> take_channel (expand_dims0 stacked) 1 = data t1ce
           \<and> take_channel (expand_dims0 stacked) 2 = data t2
           \<and> take_channel (expand_dims0 stacked) 3 = data flair"
proof -
  define n where "n = prod_list target_shape"
  define fs where "fs = [\<lambda>i. data t1 ! i, \<lambda>i. data t1ce ! i, \<lambda>i. data t2 ! i, \<lambda>i. data flair ! i]"
  define ys where "ys = concat (map (\<lambda>i. map (\<lambda>f. f i) fs) [0..<n])"
  have len: "length (data t1) = n" "length (data t1ce) = n"
    "length (data t2) = n" "length (data flair) = n"
    using assms by (simp_all add: wf_volume_def n_def)
  have st: "np_stack_last [t1, t1ce, t2, flair]
              = Inr \<lparr>shape = target_shape @ [4], data = ys\<rparr>"
    using assms(1-4) by (simp add: np_stack_last_def ys_def fs_def n_def)
  have ylen: "length ys = n * 4"
    unfolding ys_def by (rule length_concat_blocks) (simp add: fs_def)
  have ch: "take_channel (expand_dims0 \<lparr>shape = target_shape @ [4], data = ys\<rparr>) c
              = map (\<lambda>i. ys ! (i * 4 + c)) [0..<n]" for c
    using ylen by (simp add: take_channel_def expand_dims0_def)
  have k: "length fs = 4" by (simp add: fs_def)
  have "map (\<lambda>i. ys ! (i * 4 + 0)) [0..<n] = data t1"
    unfolding ys_def by (rule stack_channel [OF len(1) k]) (simp_all add: fs_def)
  then have c0: "take_channel (expand_dims0 \<lparr>shape = target_shape @ [4], data = ys\<rparr>) 0 = data t1"
    by (simp only: ch)
  have "map (\<lambda>i. ys ! (i * 4 + 1)) [0..<n] = data t1ce"
    unfolding ys_def by (rule stack_channel [OF len(2) k]) (simp_all add: fs_def)
  then have c1: "take_channel (expand_dims0 \<lparr>shape = target_shape @ [4], data = ys\<rparr>) 1 = data t1ce"
    by (simp only: ch)
  have "map (\<lambda>i. ys ! (i * 4 + 2)) [0..<n] = data t2"
    unfolding ys_def by (rule stack_channel [OF len(3) k]) (simp_all add: fs_def)
  then have c2: "take_channel (expand_dims0 \<lparr>shape = target_shape @ [4], data = ys\<rparr>) 2 = data t2"
    by (simp only: ch)
  have "map (\<lambda>i. ys ! (i * 4 + 3)) [0..<n] = data flair"
    unfolding ys_def by (rule stack_channel [OF len(4) k]) (simp_all add: fs_def)
  then have c3: "take_channel (expand_dims0 \<lparr>shape = target_shape @ [4], data = ys\<rparr>) 3 = data flair"
    by (simp only: ch)
  have "shape (expand_dims0 \<lparr>shape = target_shape @ [4], data = ys\<rparr>) = [1, 128, 128, 96, 4]"
    by (simp add: expand_dims0_def target_shape_def)
  then show ?thesis using st c0 c1 c2 c3 by blast
qed

lemma const_volume_ok: "shape (const_volume x) = target_shape" "wf_volume (const_volume x)"
  by (simp_all add: const_volume_def wf_volume_def)

theorem stacker_channels_witness:
  "shape (const_volume 1) = target_shape \<and> wf_volume (const_volume 1)
   \<and> shape (const_volume 2) = target_shape \<and> wf_volume (const_volume 2)
   \<and> shape (const_volume 3) = target_shape \<and> wf_volume (const_volume 3)
   \<and> shape (const_volume 4) = target_shape \<and> wf_volume (const_volume 4)
   \<and> (\<exists>stacked. np_stack_last [const_volume 1, const_volume 2, const_volume 3, const_volume 4]
                   = Inr stacked
           \<and> shape (expand_dims0 stacked) = [1, 128, 128, 96, 4]
           \<and> take_channel (expand_dims0 stacked) 0 = data (const_volume 1)
           \<and> take_channel (expand_dims0 stacked) 1 = data (const_volume 2)
           \<and> take_channel (expand_dims0 stacked) 2 = data (const_volume 3)
           \<and> take_channel (expand_dims0 stacked) 3 = data (const_volume 4))"
  using stacker_channels [of "const_volume 1" "const_volume 2" "const_volume 3" "const_volume 4"]
    const_volume_ok
  by blast

section \<open>Properties of the classification and the statistics\<close>

lemma argmax_from_scan:
  assumes "bi < length pre" and "pre ! bi = best"
    and "\<forall>j<length pre. pre ! j \<le> best" and "\<forall>j<bi. pre ! j < best"
  shows "argmax_from xs (length pre) best bi < length (pre @ xs)
       \<and> (\<forall>j<length (pre @ xs). (pre @ xs) ! j \<le> (pre @ xs) ! argmax_from xs (length pre) best bi)
       \<and> (\<forall>j<argmax_from xs (length pre) best bi.
             (pre @ xs) ! j < (pre @ xs) ! argmax_from xs (length pre) best bi)"
  using assms
proof (induction xs arbitrary: pre best bi)
  case Nil
  then show ?case by simp
next
  case (Cons x xs)
  show ?case
  proof (cases "best < x")
    case True
    have a: "length pre < length (pre @ [x])" by simp
    have b: "(pre @ [x]) ! length pre = x" by simp
    have c: "\<forall>j<length (pre @ [x]). (pre @ [x]) ! j \<le> x"
      using Cons.prems(3) True by (auto simp add: nth_append less_Suc_eq intro: less_imp_le order_trans)
    have d: "\<forall>j<length pre. (pre @ [x]) ! j < x"
      using Cons.prems(3) True by (auto simp add: nth_append intro: le_less_trans)
    from Cons.IH [OF a b c d] True show ?thesis by simp
  next
    case False
    have a: "bi < length (pre @ [x])" using Cons.prems(1) by simp
    have b: "(pre @ [x]) ! bi = best" using Cons.prems(1,2) by (simp add: nth_append)
    have c: "\<forall>j<length (pre @ [x]). (pre @ [x]) ! j \<le> best"
      using Cons.prems(3) False by (auto simp add: nth_append less_Suc_eq)
    have d: "\<forall>j<bi. (pre @ [x]) ! j < best"
      using Cons.prems(1,4) by (auto simp add: nth_append)
    from Cons.IH [OF a b c d] False show ?thesis by simp
  qed
qed

text \<open>
  Claim C6. On a non-empty list of class scores the arg-max returns an index whose score is
  maximal, and every earlier index has a strictly smaller score: among the classes that
  attain the maximum the lowest index is chosen. With equal maximal scores at classes 1 and
  2 the class is 1.
\<close>

theorem np_argmax_first_max:
  assumes "scores \<noteq> []"
  shows "\<exists>i. np_argmax scores = Inr i \<and> i < length scores
           \<and> (\<forall>j<length scores. scores ! j \<le> scores ! i)
           \<and> (\<forall>j<i. scores ! j < scores ! i)"
proof -
  obtain x rest where s: "scores = x # rest" using assms by (cases scores) auto
  have "argmax_from rest (length [x]) x 0 < length ([x] @ rest)
       \<and> (\<forall>j<length ([x] @ rest). ([x] @ rest) ! j \<le> ([x] @ rest) ! argmax_from rest (length [x]) x 0)
       \<and> (\<forall>j<argmax_from rest (length [x]) x 0.
             ([x] @ rest) ! j < ([x] @ rest) ! argmax_from rest (length [x]) x 0)"
    by (rule argmax_from_scan) simp_all
  then show ?thesis by (simp add: s np_argmax_def)
qed

theorem np_argmax_first_max_witness:
  "[1 / 10, 4 / 10, 4 / 10, 1 / 10] \<noteq> ([] :: real list)
   \<and> np_argmax [1 / 10, 4 / 10, 4 / 10, 1 / 10] = Inr 1"
  using np_argmax_first_max [of "[1 / 10, 4 / 10, 4 / 10, 1 / 10]"]
  by (simp add: np_argmax_def)

lemma map_exn_np_argmax:
  assumes "\<forall>row\<in>set prediction0. row \<noteq> []"
  shows "\<exists>cls. map_exn np_argmax prediction0 = Inr cls \<and> length cls = length prediction0"
  using assms
proof (induction prediction0)
  case Nil
  then show ?case by simp
next
  case (Cons row rows)
  then obtain cls where c: "map_exn np_argmax rows = Inr cls" "length cls = length rows"
    by auto
  obtain x rest where "row = x # rest" using Cons.prems by (cases row) auto
  then have "np_argmax row = Inr (argmax_from rest 1 x 0)" by (simp add: np_argmax_def)
  then show ?case using c by (simp add: bind_exn_def)
qed

lemma region_counts_sum:
  "sum_list (map snd (region_counts cls)) = int (length cls)"
proof -
  have "sum_list (map (\<lambda>u. int (count_list cls u)) (sort (remdups cls)))
          = (\<Sum>u\<in>set cls. int (count_list cls u))"
    by (subst sum_list_distinct_conv_sum_set) simp_all
  also have "\<dots> = int (\<Sum>u\<in>set cls. count_list cls u)" by simp
  also have "\<dots> = int (length cls)"
    by (simp add: sum_count_set)
  finally show ?thesis
    by (simp add: region_counts_def comp_def)
qed

lemma region_counts_get:
  "dict_get (region_counts cls) c 0 = int (count_list cls c)"
proof -
  have "map_of (map (\<lambda>u. (u, int (count_list cls u))) (sort (remdups cls))) c
          = (if c \<in> set cls then Some (int (count_list cls c)) else None)"
    by (simp add: map_of_map_restrict restrict_map_def)
  then show ?thesis
    by (simp add: dict_get_def region_counts_def)
qed

lemma total_voxels_value: "total_voxels = 128 * 128 * 96"
  by (simp add: total_voxels_def target_shape_def)

text \<open>
  Claim C7. For the scores of 128 * 128 * 96 voxels, each with at least one class, the
  classes are computed, the voxel counts over all class ids add up to \<open>totalVoxels\<close>, which
  is 128 * 128 * 96, and \<open>tumorVoxels\<close> plus the count of class 0 is \<open>totalVoxels\<close>.
\<close>

theorem statistics_counts:
  assumes "length prediction0 = 128 * 128 * 96"
    and "\<forall>row\<in>set prediction0. row \<noteq> []"
  shows "\<exists>cls. map_exn np_argmax prediction0 = Inr cls
           \<and> sum_list (map snd (region_counts cls)) = totalVoxels (compute_statistics cls)
           \<and> totalVoxels (compute_statistics cls) = 128 * 128 * 96
           \<and> dict_get (region_counts cls) 0 0 = int (count_list cls 0)
           \<and> tumorVoxels (compute_statistics cls) + dict_get (region_counts cls) 0 0
               = totalVoxels (compute_statistics cls)
           \<and> tumorVoxels (compute_statistics cls)
               = totalVoxels (compute_statistics cls) - int (count_list cls 0)"
proof -
  obtain cls where c: "map_exn np_argmax prediction0 = Inr cls" "length cls = length prediction0"
    using map_exn_np_argmax [OF assms(2)] by blast
  have t: "totalVoxels (compute_statistics cls) = 128 * 128 * 96"
    by (simp add: compute_statistics_def Let_def total_voxels_value)
  have s: "sum_list (map snd (region_counts cls)) = 128 * 128 * 96"
    using c(2) assms(1) by (simp add: region_counts_sum)
  have g: "dict_get (region_counts cls) 0 0 = int (count_list cls 0)"
    by (rule region_counts_get)
  have u: "tumorVoxels (compute_statistics cls) = 128 * 128 * 96 - int (count_list cls 0)"
    by (simp add: compute_statistics_def Let_def total_voxels_value g)
  show ?thesis using c(1) t s g u by auto
qed

theorem statistics_counts_witness:
  "length (replicate (128 * 128 * 96) [1, 0, 0, 0 :: real]) = 128 * 128 * 96
   \<and> (\<exists>cls. map_exn np_argmax (replicate (128 * 128 * 96) [1, 0, 0, 0]) = Inr cls
          \<and> sum_list (map snd (region_counts cls)) = totalVoxels (compute_statistics cls)
          \<and> totalVoxels (compute_statistics cls) = 128 * 128 * 96
          \<and> tumorVoxels (compute_statistics cls) + dict_get (region_counts cls) 0 0
               = totalVoxels (compute_statistics cls))"
proof -
  have a: "length (replicate (128 * 128 * 96) [1, 0, 0, 0 :: real]) = 128 * 128 * 96"
    by (simp only: length_replicate)
  have b: "\<forall>row\<in>set (replicate (128 * 128 * 96) [1, 0, 0, 0 :: real]). row \<noteq> []"
    by simp
  from statistics_counts [OF a b] a show ?thesis by blast
qed

lemma filter_pos_sum:
  fixes g :: "nat \<Rightarrow> int"
  assumes "distinct us"
  shows "sum_list (map g (filter (\<lambda>u. 0 < u) us))
           = sum_list (map g us) - (if 0 \<in> set us then g 0 else 0)"
  using assms by (induction us) auto

lemma regions_ids:
  "map fst (regions (compute_statistics cls)) = filter (\<lambda>u. 0 < u) (sort (remdups cls))"
  by (simp add: compute_statistics_def Let_def region_counts_def make_region_def
      filter_map comp_def)

lemma regions_voxels:
  "map (\<lambda>e. voxels (snd e)) (regions (compute_statistics cls))
     = map (\<lambda>u. int (count_list cls u)) (filter (\<lambda>u. 0 < u) (sort (remdups cls)))"
  by (simp add: compute_statistics_def Let_def region_counts_def make_region_def
      filter_map comp_def)

lemma regions_percentage:
  "map (\<lambda>e. percentage (snd e)) (regions (compute_statistics cls))
     = map (\<lambda>e. real_of_int (voxels (snd e)) / real_of_int total_voxels * 100)
         (regions (compute_statistics cls))"
  by (simp add: compute_statistics_def Let_def region_counts_def make_region_def
      filter_map comp_def)

lemma regions_voxels_sum:
  "sum_list (map (\<lambda>e. voxels (snd e)) (regions (compute_statistics cls)))
     = int (length cls) - int (count_list cls 0)"
proof -
  have "sum_list (map (\<lambda>u. int (count_list cls u)) (filter (\<lambda>u. 0 < u) (sort (remdups cls))))
          = sum_list (map (\<lambda>u. int (count_list cls u)) (sort (remdups cls)))
            - (if 0 \<in> set (sort (remdups cls)) then int (count_list cls 0) else 0)"
    by (rule filter_pos_sum) simp
  also have "sum_list (map (\<lambda>u. int (count_list cls u)) (sort (remdups cls))) = int (length cls)"
    using region_counts_sum [of cls] by (simp add: region_counts_def comp_def)
  also have "(if 0 \<in> set (sort (remdups cls)) then int (count_list cls 0) else 0)
               = int (count_list cls 0)"
    by simp
  finally show ?thesis by (simp only: regions_voxels)
qed

lemma scaled_sum:
  "sum_list (map (\<lambda>e. real_of_int (h e) / t * 100) es) = real_of_int (sum_list (map h es)) / t * 100"
  by (induction es) (simp_all add: add_divide_distrib distrib_right)

lemma positive_sum_empty:
  fixes h :: "'a \<Rightarrow> int"
  assumes "\<forall>e\<in>set es. 0 < h e" and "sum_list (map h es) = 0"
  shows "es = []"
proof (cases es)
  case Nil
  then show ?thesis .
next
  case (Cons e rest)
  have "0 \<le> sum_list (map h rest)"
    using assms(1) Cons by (intro sum_list_nonneg) auto
  moreover have "0 < h e" using assms(1) Cons by simp
  ultimately show ?thesis using assms(2) Cons by simp
qed

text \<open>
  Claim C10. For a segmentation map of 128 * 128 * 96 voxels the emitted regions are the
  classes above 0 that occur, their \<open>voxels\<close> fields add up to \<open>tumorVoxels\<close>, their
  percentages add up to \<open>tumorPercentage\<close>, and there is no region exactly when
  \<open>tumorVoxels\<close> is 0.
\<close>

theorem regions_sum_tumor:
  assumes "length cls = 128 * 128 * 96"
  shows "map fst (regions (compute_statistics cls)) = filter (\<lambda>u. 0 < u) (sort (remdups cls))
       \<and> sum_list (map (\<lambda>e. voxels (snd e)) (regions (compute_statistics cls)))
           = tumorVoxels (compute_statistics cls)
       \<and> sum_list (map (\<lambda>e. percentage (snd e)) (regions (compute_statistics cls)))
           = tumorPercentage (compute_statistics cls)
       \<and> (regions (compute_statistics cls) = [] \<longleftrightarrow> tumorVoxels (compute_statistics cls) = 0)"
proof -
  let ?st = "compute_statistics cls"
  have tv: "tumorVoxels ?st = total_voxels - int (count_list cls 0)"
    by (simp add: compute_statistics_def Let_def region_counts_get)
  have tp: "tumorPercentage ?st = real_of_int (tumorVoxels ?st) / real_of_int total_voxels * 100"
    by (simp add: compute_statistics_def Let_def)
  have vs: "sum_list (map (\<lambda>e. voxels (snd e)) (regions ?st)) = tumorVoxels ?st"
    using assms by (simp add: regions_voxels_sum tv total_voxels_value)
  have ps: "sum_list (map (\<lambda>e. percentage (snd e)) (regions ?st)) = tumorPercentage ?st"
    by (simp only: regions_percentage scaled_sum vs tp)
  have pos: "\<forall>e\<in>set (regions ?st). 0 < voxels (snd e)"
  proof -
    have "\<forall>x\<in>set (map (\<lambda>e. voxels (snd e)) (regions ?st)). 0 < x"
      unfolding regions_voxels using count_list_0_iff [of cls] by fastforce
    then show ?thesis by simp
  qed
  have "regions ?st = [] \<longleftrightarrow> tumorVoxels ?st = 0"
  proof
    assume "regions ?st = []"
    then show "tumorVoxels ?st = 0" using vs by simp
  next
    assume "tumorVoxels ?st = 0"
    then have "sum_list (map (\<lambda>e. voxels (snd e)) (regions ?st)) = 0" using vs by simp
    with pos show "regions ?st = []" by (rule positive_sum_empty)
  qed
  then show ?thesis using regions_ids vs ps by blast
qed

theorem regions_sum_tumor_witness:
  "length (replicate (128 * 128 * 96) (3::nat)) = 128 * 128 * 96
   \<and> sum_list (map (\<lambda>e. voxels (snd e))
        (regions (compute_statistics (replicate (128 * 128 * 96) 3))))
       = tumorVoxels (compute_statistics (replicate (128 * 128 * 96) 3))
   \<and> sum_list (map (\<lambda>e. percentage (snd e))
        (regions (compute_statistics (replicate (128 * 128 * 96) 3))))
       = tumorPercentage (compute_statistics (replicate (128 * 128 * 96) 3))"
proof -
  have a: "length (replicate (128 * 128 * 96) (3::nat)) = 128 * 128 * 96"
    by (simp only: length_replicate)
  from regions_sum_tumor [OF a] a show ?thesis by blast
qed

section \<open>Properties of the request\<close>

text \<open>
  Claim C8, as stated, fails: with no model loaded and a model file that cannot be loaded,
  a request whose containers are all malformed ends with the loader's error, not with the
  decoder's.
\<close>

theorem malformed_with_unloadable_model_counterexample:
  "parse_nifti (\<lambda>b. Inl (Exn OtherError ''truncated file'')) ''t1''
     = Inl (Exn ValueError ''Failed to parse NIfTI file: truncated file'')
   \<and> predict (\<lambda>b. Inl (Exn OtherError ''truncated file'')) (\<lambda>v out. [])
        (Inl (Exn OtherError ''no model file'')) (\<lambda>m t. Inr []) (None :: unit option)
        ''t1'' ''t1ce'' ''t2'' ''flair''
     = (Inl (HTTPException 500 ''Prediction failed: no model file''), None)"
  by (simp add: parse_nifti_def predict_def load_model_def)

lemma load_and_resize_malformed:
  assumes "isl (nib_load t1) \<or> isl (nib_load t1ce) \<or> isl (nib_load t2) \<or> isl (nib_load flair)"
  shows "\<exists>e. (nib_load t1 = Inl e \<or> nib_load t1ce = Inl e \<or> nib_load t2 = Inl e
               \<or> nib_load flair = Inl e)
           \<and> load_and_resize nib_load zoom_data t1 t1ce t2 flair
               = Inl (Exn ValueError (''Failed to parse NIfTI file: '' @ exn_str e))"
proof -
  note defs = load_and_resize_def bind_exn_def
  consider (a) e where "nib_load t1 = Inl e"
    | (b) d1 e where "nib_load t1 = Inr d1" "nib_load t1ce = Inl e"
    | (c) d1 d2 e where "nib_load t1 = Inr d1" "nib_load t1ce = Inr d2" "nib_load t2 = Inl e"
    | (d) d1 d2 d3 e where "nib_load t1 = Inr d1" "nib_load t1ce = Inr d2" "nib_load t2 = Inr d3"
        "nib_load flair = Inl e"
    using assms
    by (cases "nib_load t1"; cases "nib_load t1ce"; cases "nib_load t2"; cases "nib_load flair")
      auto
  then show ?thesis
  proof cases
    case a
    then show ?thesis by (auto simp add: defs parse_nifti_def)
  next
    case b
    then show ?thesis by (auto simp add: defs parse_nifti_def)
  next
    case c
    then show ?thesis by (auto simp add: defs parse_nifti_def)
  next
    case d
    then show ?thesis by (auto simp add: defs parse_nifti_def)
  qed
qed

text \<open>
  Claim C8, amended. When the decoder refuses the bytes of one of the four modalities the
  request never returns a response. When moreover the model is loaded, or loads, the request
  ends in an HTTP 500 response that carries the \<^verbatim>\<open>ValueError\<close> of \<^verbatim>\<open>parse_nifti\<close> for a
  modality the decoder refused, whatever the resampler and the model would compute.
\<close>

theorem malformed_request_fails:
  assumes "isl (nib_load t1) \<or> isl (nib_load t1ce) \<or> isl (nib_load t2) \<or> isl (nib_load flair)"
  shows "(\<exists>h. fst (predict nib_load zoom_data keras_load model_predict model t1 t1ce t2 flair)
              = Inl h)
       \<and> (\<forall>m model'. load_model keras_load model = (Inr m, model') \<longrightarrow>
            (\<exists>e. (nib_load t1 = Inl e \<or> nib_load t1ce = Inl e \<or> nib_load t2 = Inl e
                    \<or> nib_load flair = Inl e)
                \<and> predict nib_load zoom_data keras_load model_predict model t1 t1ce t2 flair
                    = (Inl (HTTPException 500
                         (''Prediction failed: Failed to parse NIfTI file: '' @ exn_str e)),
                       model')))"
proof -
  obtain e where e: "nib_load t1 = Inl e \<or> nib_load t1ce = Inl e \<or> nib_load t2 = Inl e
               \<or> nib_load flair = Inl e"
    and l: "load_and_resize nib_load zoom_data t1 t1ce t2 flair
               = Inl (Exn ValueError (''Failed to parse NIfTI file: '' @ exn_str e))"
    using load_and_resize_malformed [OF assms] by blast
  have r: "run_pipeline nib_load zoom_data engine t1 t1ce t2 flair
             = Inl (Exn ValueError (''Failed to parse NIfTI file: '' @ exn_str e))" for engine
    using l by (simp add: run_pipeline_def bind_exn_def)
  have "\<exists>h. fst (predict nib_load zoom_data keras_load model_predict model t1 t1ce t2 flair) = Inl h"
    by (cases "load_model keras_load model"; cases "fst (load_model keras_load model)")
      (simp_all add: predict_def r)
  moreover have "predict nib_load zoom_data keras_load model_predict model t1 t1ce t2 flair
      = (Inl (HTTPException 500
               (''Prediction failed: Failed to parse NIfTI file: '' @ exn_str e)), model')"
    if "load_model keras_load model = (Inr m, model')" for m model'
    using that by (simp add: predict_def r)
  ultimately show ?thesis using e by blast
qed

theorem malformed_request_fails_witness:
  "isl ((\<lambda>b. if b = ''bad'' then Inl (Exn OtherError ''truncated'')
              else Inr \<lparr>shape = [1, 1, 1], data = [Fin 1]\<rparr>) ''bad'')
   \<and> load_model (Inl (Exn OtherError ''unused'')) (Some ()) = (Inr (), Some ())
   \<and> predict (\<lambda>b. if b = ''bad'' then Inl (Exn OtherError ''truncated'')
                   else Inr \<lparr>shape = [1, 1, 1], data = [Fin 1]\<rparr>)
        (\<lambda>v out. []) (Inl (Exn OtherError ''unused'')) (\<lambda>m t. Inr []) (Some ())
        ''ok'' ''ok'' ''bad'' ''ok''
     = (Inl (HTTPException 500 ''Prediction failed: Failed to parse NIfTI file: truncated''),
        Some ())"
proof -
  let ?nib = "\<lambda>b. if b = ''bad'' then Inl (Exn OtherError ''truncated'')
                   else Inr \<lparr>shape = [1, 1, 1], data = [Fin 1]\<rparr>"
  have a: "isl (?nib ''ok'') \<or> isl (?nib ''ok'') \<or> isl (?nib ''bad'') \<or> isl (?nib ''ok'')"
    by simp
  have l: "load_model (Inl (Exn OtherError ''unused'')) (Some ()) = (Inr (), Some ())"
    by (simp add: load_model_def)
  from malformed_request_fails [OF a, of "\<lambda>v out. []" "Inl (Exn OtherError ''unused'')"
      "\<lambda>m t. Inr []" "Some ()"] l
  show ?thesis by simp
qed

end
